theory Spec2Isabelle
  imports Main "HOL-Library.Word" "HOL-Library.AList"
begin

unbundle bit_operations_syntax

section \<open>Addresses and constants\<close>

text \<open>
  Pointers (\<^verbatim>\<open>void *\<close>, \<^verbatim>\<open>uint8_t *\<close>) of the 32-bit kernel are 32-bit words;
  pointer arithmetic and pointer comparison are the unsigned word operations.
  \<^verbatim>\<open>threads/vaddr.h\<close> and \<^verbatim>\<open>userprog/exception.h\<close> are not among the sources, so
  the constants they declare are written here.
\<close>

type_synonym vaddr = "32 word"

text \<open>Modelled from the spec: "Page size \<^verbatim>\<open>PGSIZE\<close> = 4096".\<close>

definition PGSIZE :: "32 word" where
  "PGSIZE = 4096"

text \<open>
  Modelled from the spec: \<^verbatim>\<open>PHYS_BASE\<close> is "the fixed boundary between user and kernel
  virtual memory" of an x86-32 kernel; its header is not among the sources, the value is the loader's
  default 3 GiB.
\<close>

definition PHYS_BASE :: vaddr where
  "PHYS_BASE = 0xC0000000"

definition is_user_vaddr :: "vaddr \<Rightarrow> bool" where
  "is_user_vaddr a = (a < PHYS_BASE)"

definition pg_ofs :: "vaddr \<Rightarrow> 32 word" where
  "pg_ofs a = a AND (PGSIZE - 1)"

definition pg_round_down :: "vaddr \<Rightarrow> vaddr" where
  "pg_round_down a = a AND NOT (PGSIZE - 1)"

text \<open>Page-fault error code bits of the x86 architecture (\<^verbatim>\<open>PF_P\<close>, \<^verbatim>\<open>PF_W\<close>, \<^verbatim>\<open>PF_U\<close>).\<close>

definition PF_P :: "32 word" where "PF_P = 1"
definition PF_W :: "32 word" where "PF_W = 2"
definition PF_U :: "32 word" where "PF_U = 4"

section \<open>Data model\<close>

text \<open>A \<^verbatim>\<open>struct file *\<close> is the identity of an open file object; \<^verbatim>\<open>NULL\<close> is \<open>None\<close>.\<close>

type_synonym file_ptr = nat

datatype purpose = FOR_FILE | FOR_STACK | FOR_MMAP

text \<open>\<^verbatim>\<open>struct page\<close> (vm/page.h), with the fields the two source files read and write.\<close>

record page =
  page_file :: "file_ptr option"
  ofs :: int
  page_addr :: vaddr
  frame_addr :: vaddr
  read_bytes :: "32 word"
  zero_bytes :: "32 word"
  is_writable :: bool
  purpose :: purpose
  is_swapped :: bool
  swap_i :: nat

text \<open>\<^verbatim>\<open>struct frame\<close> (vm/frame.h), with the fields the page-fault handler writes.\<close>

record frame =
  f_page_addr :: vaddr
  is_evictable :: bool
  owner_thread :: "nat option"

text \<open>\<^verbatim>\<open>struct mapping\<close> (vm/mmap.h); \<open>m_pages\<close> lists the pages by their user address.\<close>

record mapping =
  m_id :: int
  m_addr :: vaddr
  m_size :: int
  m_file :: "file_ptr option"
  m_fd :: int
  m_pages :: "vaddr list"

text \<open>A page-table entry of the process's page directory.\<close>

record pte =
  pte_frame :: vaddr
  pte_writable :: bool
  pte_dirty :: bool

datatype pal_flag = PAL_USER | PAL_ZERO

text \<open>
  Calls into collaborators whose code is not among the sources (frame table, swap
  disk, file system, page allocator, locks) are recorded, in order, with their
  arguments; the values they return are supplied by the caller of the model.
\<close>

datatype event =
    Frame_alloc "pal_flag list" bool vaddr
  | Frame_free vaddr
  | File_seek "file_ptr option" int
  | File_read "file_ptr option" vaddr int
  | File_write "file_ptr option" vaddr "32 word"
  | File_write_at "file_ptr option" vaddr "32 word" int
  | File_reopen "file_ptr option" "file_ptr option"
  | File_close "file_ptr option"
  | Memset_zero vaddr "32 word"
  | Swap_read nat vaddr
  | Palloc_get_page vaddr
  | Lock_acquire
  | Lock_release
  | Touch vaddr
  | Input_getc vaddr
  | Putbuf vaddr "32 word"

text \<open>
  The current thread with its process: supplemental page table (in the order the hash
  iterator visits it), page directory (with the kernel's part of the address space),
  frame table, the stack pointer saved on the thread, descriptor table, mapping list,
  and the calls made so far.
\<close>

record vm_state =
  SPT :: "(vaddr \<times> page) list"
  pagedir :: "vaddr \<rightharpoonup> pte"
  frame_table :: "vaddr \<rightharpoonup> frame"
  tid :: nat
  thread_esp :: vaddr
  exit_status :: int
  fd_table :: "file_ptr option list"
  mmap_table :: "mapping list"
  data_segment_start :: vaddr
  trace :: "event list"

text \<open>
  How a call ends: it returns, or the process is terminated by \<^verbatim>\<open>exit\<close>, or the
  kernel panics on a failed \<^verbatim>\<open>ASSERT\<close>, or the code reads outside an array.
\<close>

datatype error = Exit int | Panic | Out_of_bounds

type_synonym 'a result = "(error + 'a) \<times> vm_state"

record intr_frame =
  error_code :: "32 word"
  if_esp :: vaddr

section \<open>Collaborators\<close>

definition log_event :: "event \<Rightarrow> vm_state \<Rightarrow> vm_state" where
  "log_event e s = s\<lparr>trace := trace s @ [e]\<rparr>"

text \<open>\<^verbatim>\<open>exit\<close> (syscall.c): record the status and leave through \<^verbatim>\<open>thread_exit\<close>.\<close>

definition sys_exit :: "vm_state \<Rightarrow> int \<Rightarrow> 'a result" where
  "sys_exit s status = (Inl (Exit status), s\<lparr>exit_status := status\<rparr>)"

text \<open>
  Modelled from the spec: \<^verbatim>\<open>SPT_search\<close> (vm/page.c is not among the sources) is the table's
  "\<^verbatim>\<open>search(vpage) \<rightarrow> entry | NONE\<close>".
\<close>

definition SPT_search :: "vm_state \<Rightarrow> vaddr \<Rightarrow> page option" where
  "SPT_search s a = map_of (SPT s) a"

text \<open>
  Modelled from the spec: \<^verbatim>\<open>SPT_insert\<close> (vm/page.c is not among the sources) is the table's
  "\<^verbatim>\<open>insert(entry)\<close>" keyed on the page address; it builds the entry from its
  arguments, not swapped, and returns it.
\<close>

definition SPT_insert ::
  "vm_state \<Rightarrow> file_ptr option \<Rightarrow> int \<Rightarrow> vaddr \<Rightarrow> vaddr \<Rightarrow> 32 word \<Rightarrow> 32 word \<Rightarrow> bool \<Rightarrow> purpose
     \<Rightarrow> vm_state" where
  "SPT_insert s fl off upage kpage rb zb w pur =
     s\<lparr>SPT := AList.update upage
        \<lparr>page_file = fl, ofs = off, page_addr = upage, frame_addr = kpage,
         read_bytes = rb, zero_bytes = zb, is_writable = w, purpose = pur,
         is_swapped = False, swap_i = 0\<rparr> (SPT s)\<rparr>"

text \<open>Assignment to fields of the \<^verbatim>\<open>struct page\<close> found under a key.\<close>

definition SPT_modify :: "vm_state \<Rightarrow> vaddr \<Rightarrow> (page \<Rightarrow> page) \<Rightarrow> vm_state" where
  "SPT_modify s a g =
     s\<lparr>SPT := AList.map_entry a g (SPT s)\<rparr>"

text \<open>
  Modelled from the spec: \<^verbatim>\<open>frame_alloc\<close> (vm/frame.c is not among the sources) is
  "\<^verbatim>\<open>alloc(zero_fill: bool, pinned: bool) \<rightarrow> frame_id\<close>. Returns a frame ready to be
  installed"; the frame it returns is \<open>kpage\<close>, registered in the frame table. When
  no frame is free the real allocator evicts a victim first; that eviction, and what it
  does to the victim's page, is not modelled. The properties below are about the calls
  and assignments the handler makes itself.
\<close>

definition frame_alloc :: "vm_state \<Rightarrow> pal_flag list \<Rightarrow> bool \<Rightarrow> vaddr \<Rightarrow> vm_state" where
  "frame_alloc s flags pinned kpage =
     log_event (Frame_alloc flags pinned kpage)
       (s\<lparr>frame_table := (frame_table s)(kpage \<mapsto>
            \<lparr>f_page_addr = 0, is_evictable = (\<not> pinned), owner_thread = None\<rparr>)\<rparr>)"

text \<open>Assignment to fields of the \<^verbatim>\<open>struct frame\<close> that \<^verbatim>\<open>find_frame\<close> returns.\<close>

definition frame_modify :: "vm_state \<Rightarrow> vaddr \<Rightarrow> (frame \<Rightarrow> frame) \<Rightarrow> vm_state" where
  "frame_modify s kpage g =
     s\<lparr>frame_table := (case frame_table s kpage of
          None \<Rightarrow> frame_table s
        | Some fr \<Rightarrow> (frame_table s)(kpage \<mapsto> g fr))\<rparr>"

text \<open>Modelled from the spec: \<^verbatim>\<open>frame_free\<close> is "\<^verbatim>\<open>free(frame_id)\<close>: drop the tenant, mark free".\<close>

definition frame_free :: "vm_state \<Rightarrow> vaddr \<Rightarrow> vm_state" where
  "frame_free s kpage =
     log_event (Frame_free kpage) (s\<lparr>frame_table := (frame_table s)(kpage := None)\<rparr>)"

text \<open>
  \<^verbatim>\<open>pagedir_set_page\<close>: "\<^verbatim>\<open>install(pd, vpage, frame, writable)\<close>"; it fails, changing
  nothing, when no memory is left for a page table, which \<open>ok\<close> says.
\<close>

definition pagedir_set_page :: "vm_state \<Rightarrow> vaddr \<Rightarrow> vaddr \<Rightarrow> bool \<Rightarrow> bool \<Rightarrow> vm_state" where
  "pagedir_set_page s upage kpage w ok =
     (if ok
      then s\<lparr>pagedir := (pagedir s)(upage \<mapsto>
             \<lparr>pte_frame = kpage, pte_writable = w, pte_dirty = False\<rparr>)\<rparr>
      else s)"

definition pagedir_clear_page :: "vm_state \<Rightarrow> vaddr \<Rightarrow> vm_state" where
  "pagedir_clear_page s upage = s\<lparr>pagedir := (pagedir s)(upage := None)\<rparr>"

definition pagedir_is_dirty :: "vm_state \<Rightarrow> vaddr \<Rightarrow> bool" where
  "pagedir_is_dirty s a = (case pagedir s a of None \<Rightarrow> False | Some e \<Rightarrow> pte_dirty e)"

text \<open>
  Modelled from the spec: \<^verbatim>\<open>SD_read\<close> (vm/swap.c is not among the sources) is the swap
  allocator's "\<^verbatim>\<open>read(slot, dst_page)\<close>", a synchronous read of the slot into the
  page. It is recorded as a call; what it does to the allocator's bitmap is decided in
  vm/swap.c and is not part of this model.
\<close>

definition SD_read :: "vm_state \<Rightarrow> nat \<Rightarrow> vaddr \<Rightarrow> vm_state" where
  "SD_read s slot kpage = log_event (Swap_read slot kpage) s"

section \<open>The page-fault handler (exception.c)\<close>

text \<open>
  What the collaborators return during one fault: the frame \<^verbatim>\<open>frame_alloc\<close> hands
  out, the byte count of \<^verbatim>\<open>file_read\<close>, and whether \<^verbatim>\<open>pagedir_set_page\<close> succeeds.
\<close>

record fault_env =
  alloc_kpage :: vaddr
  read_result :: int
  install_ok :: bool

text \<open>Case 1 of the handler, lines 193 to 202: the stack grows by one page.\<close>

definition grow_stack :: "vm_state \<Rightarrow> vaddr \<Rightarrow> fault_env \<Rightarrow> unit result" where
  "grow_stack s fault_addr env =
     (let fault_page_addr = pg_round_down fault_addr;
          kpage = alloc_kpage env;
          s1 = frame_alloc s [PAL_USER, PAL_ZERO] False kpage;
          s2 = frame_modify s1 kpage
                 (\<lambda>fr. fr\<lparr>is_evictable := True, owner_thread := Some (tid s1)\<rparr>);
          s3 = pagedir_set_page s2 fault_page_addr kpage True (install_ok env);
          s4 = SPT_insert s3 None 0 fault_page_addr kpage 0 PGSIZE True FOR_STACK
      in (Inr (), s4\<lparr>thread_esp := fault_addr\<rparr>))"

text \<open>
  The branches \<^verbatim>\<open>FOR_FILE\<close> and \<^verbatim>\<open>FOR_MMAP\<close> with \<^verbatim>\<open>!is_swapped\<close>, lines 229 to 254
  and 335 to 360 (the same text twice): read the page from its file.
\<close>

definition load_from_file :: "vm_state \<Rightarrow> vaddr \<Rightarrow> page \<Rightarrow> fault_env \<Rightarrow> unit result" where
  "load_from_file s key fault_page env =
     (let upage = page_addr fault_page;
          s0 = log_event (File_seek (page_file fault_page) (ofs fault_page)) s;
          kpage = alloc_kpage env;
          s1 = frame_alloc s0 [PAL_USER] True kpage;
          s2 = frame_modify s1 kpage
                 (\<lambda>fr. fr\<lparr>f_page_addr := upage, is_evictable := True,
                           owner_thread := Some (tid s1)\<rparr>);
          s3 = SPT_modify s2 key (\<lambda>p. p\<lparr>frame_addr := kpage, is_swapped := False\<rparr>);
          n = read_result env;
          s4 = log_event (File_read (page_file fault_page) kpage
                            (sint (read_bytes fault_page))) s3
      in if n \<noteq> sint (read_bytes fault_page)
         then sys_exit (frame_free s4 kpage) (- 1)
         else
           let s5 = log_event (Memset_zero (kpage + read_bytes fault_page)
                                 (zero_bytes fault_page)) s4;
               s6 = pagedir_set_page s5 upage kpage (is_writable fault_page) (install_ok env)
           in (Inr (), s6))"

text \<open>
  The branches \<^verbatim>\<open>FOR_FILE\<close> and \<^verbatim>\<open>FOR_MMAP\<close> with \<^verbatim>\<open>is_swapped\<close>, lines 258 to 288
  and 364 to 394 (the same text twice): read the page from the swap disk.
\<close>

definition load_from_swap :: "vm_state \<Rightarrow> vaddr \<Rightarrow> page \<Rightarrow> fault_env \<Rightarrow> unit result" where
  "load_from_swap s key fault_page env =
     (let upage = page_addr fault_page;
          slot = swap_i fault_page;
          s0 = log_event (File_seek (page_file fault_page) (ofs fault_page)) s;
          kpage = alloc_kpage env;
          s1 = frame_alloc s0 [PAL_USER] True kpage;
          s2 = frame_modify s1 kpage
                 (\<lambda>fr. fr\<lparr>f_page_addr := upage, is_evictable := True,
                           owner_thread := Some (tid s1)\<rparr>);
          s3 = SPT_modify s2 key (\<lambda>p. p\<lparr>frame_addr := kpage\<rparr>);
          s4 = SD_read s3 slot kpage;
          s5 = SPT_modify s4 key (\<lambda>p. p\<lparr>is_swapped := False\<rparr>);
          s6 = pagedir_set_page s5 upage kpage (is_writable fault_page) (install_ok env)
      in (Inr (), s6))"

text \<open>The branch \<^verbatim>\<open>FOR_STACK\<close> with \<^verbatim>\<open>!is_swapped\<close>, lines 299 to 305.\<close>

definition load_stack :: "vm_state \<Rightarrow> vaddr \<Rightarrow> vaddr \<Rightarrow> page \<Rightarrow> fault_env \<Rightarrow> unit result" where
  "load_stack s fault_addr key fault_page env =
     (let upage = page_addr fault_page;
          kpage = alloc_kpage env;
          s1 = frame_alloc s [PAL_USER] False kpage;
          s2 = SPT_modify s1 key (\<lambda>p. p\<lparr>frame_addr := kpage\<rparr>);
          s3 = pagedir_set_page s2 upage kpage (is_writable fault_page) (install_ok env)
      in (Inr (), s3\<lparr>thread_esp := fault_addr\<rparr>))"

text \<open>The branch \<^verbatim>\<open>FOR_STACK\<close> with \<^verbatim>\<open>is_swapped\<close>, lines 309 to 327.\<close>

definition load_stack_from_swap ::
  "vm_state \<Rightarrow> vaddr \<Rightarrow> vaddr \<Rightarrow> page \<Rightarrow> fault_env \<Rightarrow> unit result" where
  "load_stack_from_swap s fault_addr key fault_page env =
     (let upage = page_addr fault_page;
          slot = swap_i fault_page;
          kpage = alloc_kpage env;
          s1 = frame_alloc s [PAL_USER] False kpage;
          s2 = frame_modify s1 kpage
                 (\<lambda>fr. fr\<lparr>f_page_addr := upage, is_evictable := True,
                           owner_thread := Some (tid s1)\<rparr>);
          s3 = SPT_modify s2 key (\<lambda>p. p\<lparr>frame_addr := kpage, is_swapped := False\<rparr>);
          s4 = SD_read s3 slot kpage;
          s5 = pagedir_set_page s4 upage kpage (is_writable fault_page) (install_ok env)
      in (Inr (), s5\<lparr>thread_esp := fault_addr\<rparr>))"

text \<open>
  \<^verbatim>\<open>page_fault\<close>: \<open>fault_addr\<close> is the content of CR2. The stack pointer is the
  frame's for a fault in user mode and the one saved on the thread otherwise. The
  counter \<^verbatim>\<open>page_fault_cnt\<close> and the flag \<^verbatim>\<open>not_present\<close>, which the handler computes
  and never reads, are left out; the \<^verbatim>\<open>default\<close> branch of the \<^verbatim>\<open>switch\<close> has no
  value of \<open>purpose\<close> to serve.
\<close>

definition page_fault :: "vm_state \<Rightarrow> intr_frame \<Rightarrow> vaddr \<Rightarrow> fault_env \<Rightarrow> unit result" where
  "page_fault s f fault_addr env =
     (let write = (error_code f AND PF_W \<noteq> 0);
          user = (error_code f AND PF_U \<noteq> 0);
          esp = (if user then if_esp f else thread_esp s)
      in if fault_addr = 0 \<or> \<not> is_user_vaddr fault_addr then sys_exit s (- 1)
         else
           let fault_page_addr = pg_round_down fault_addr
           in case SPT_search s fault_page_addr of
                None \<Rightarrow>
                  if fault_addr \<le> PHYS_BASE - 0x800000 then sys_exit s (- 1)
                  else if fault_addr \<ge> esp - 32 then grow_stack s fault_addr env
                  else sys_exit s (- 1)
              | Some fault_page \<Rightarrow>
                  if write \<and> \<not> is_writable fault_page then sys_exit s (- 1)
                  else (case purpose fault_page of
                      FOR_FILE \<Rightarrow>
                        if \<not> is_swapped fault_page
                        then load_from_file s fault_page_addr fault_page env
                        else load_from_swap s fault_page_addr fault_page env
                    | FOR_STACK \<Rightarrow>
                        if \<not> is_swapped fault_page
                        then load_stack s fault_addr fault_page_addr fault_page env
                        else load_stack_from_swap s fault_addr fault_page_addr fault_page env
                    | FOR_MMAP \<Rightarrow>
                        if \<not> is_swapped fault_page
                        then load_from_file s fault_page_addr fault_page env
                        else load_from_swap s fault_page_addr fault_page env))"

section \<open>System calls (syscall.c)\<close>

text \<open>
  \<^verbatim>\<open>FD_TABLE_SIZE\<close> (threads/thread.h is not among the sources) is the number of entries of the
  thread's descriptor table, here the length of the list.
\<close>

definition FD_TABLE_SIZE :: "vm_state \<Rightarrow> int" where
  "FD_TABLE_SIZE s = int (length (fd_table s))"

text \<open>
  \<^verbatim>\<open>fd_table[fd]\<close> where the source has not compared \<open>fd\<close> with the bounds of the table:
  outside them the C code reads whatever lies beside the array.
\<close>

definition fd_lookup :: "vm_state \<Rightarrow> int \<Rightarrow> error + file_ptr option" where
  "fd_lookup s fd =
     (if 0 \<le> fd \<and> fd < FD_TABLE_SIZE s then Inr (fd_table s ! nat fd) else Inl Out_of_bounds)"

text \<open>
  A byte can be read when its page is present in the page directory. The frame of the
  fault that a read of an absent page raises in kernel mode has the error code 0 (not
  present, read, kernel); its stack pointer is not looked at.
\<close>

definition page_present :: "vm_state \<Rightarrow> vaddr \<Rightarrow> bool" where
  "page_present s a = (pagedir s (pg_round_down a) \<noteq> None)"








definition close :: "vm_state \<Rightarrow> int \<Rightarrow> unit result" where
  "close s fd =
     (if fd < 2 \<or> fd \<ge> FD_TABLE_SIZE s \<or> fd_table s ! nat fd = None then sys_exit s (- 1)
      else
        let s1 = log_event Lock_acquire s;
            s2 = log_event (File_close (fd_table s1 ! nat fd)) s1;
            s3 = s2\<lparr>fd_table := (fd_table s2)[nat fd := None]\<rparr>
        in (Inr (), log_event Lock_release s3))"

subsection \<open>The mapping table\<close>

text \<open>
  Modelled from the spec: \<^verbatim>\<open>find_mapping_addr\<close> (vm/mmap.c is not among the sources) serves the
  validation that the address "overlaps no existing mapping": it finds the mapping
  whose bytes \<open>[addr, addr + size)\<close> hold the address.
\<close>

definition find_mapping_addr :: "mapping list \<Rightarrow> vaddr \<Rightarrow> mapping option" where
  "find_mapping_addr tbl a =
     find (\<lambda>m. uint (m_addr m) \<le> uint a \<and> uint a < uint (m_addr m) + m_size m) tbl"

text \<open>
  Modelled from the spec: \<^verbatim>\<open>find_mapping_id\<close> (vm/mmap.c is not among the sources) "locates the
  mapping" with the given id, the first one in list order.
\<close>

definition find_mapping_id :: "mapping list \<Rightarrow> int \<Rightarrow> mapping option" where
  "find_mapping_id tbl i = find (\<lambda>m. m_id m = i) tbl"

text \<open>\<^verbatim>\<open>list_remove (&m->elem)\<close> for the mapping that \<^verbatim>\<open>find_mapping_id\<close> found.\<close>

fun remove_mapping :: "int \<Rightarrow> mapping list \<Rightarrow> mapping list" where
  "remove_mapping i [] = []"
| "remove_mapping i (m # ms) = (if m_id m = i then ms else m # remove_mapping i ms)"

text \<open>
  \<^verbatim>\<open>list_push_back (&m->pages, &temp->MMAP_elem)\<close>, where \<open>m\<close> is the mapping that
  \<^verbatim>\<open>mmap\<close> has just put at the back of the table.
\<close>

definition push_page :: "vm_state \<Rightarrow> vaddr \<Rightarrow> vm_state" where
  "push_page s a =
     (case rev (mmap_table s) of
        [] \<Rightarrow> s
      | m # earlier \<Rightarrow>
          s\<lparr>mmap_table := rev earlier @ [m\<lparr>m_pages := m_pages m @ [a]\<rparr>]\<rparr>)"

text \<open>
  What the collaborators return during one \<^verbatim>\<open>mmap\<close>: the file's length, the handle
  \<^verbatim>\<open>file_reopen\<close> makes, and for the i-th turn of the loop the page of
  \<^verbatim>\<open>palloc_get_page\<close> and the byte count of \<^verbatim>\<open>file_read\<close>.
\<close>

record mmap_env =
  length_result :: int
  reopen_result :: "file_ptr option"
  palloc_result :: "nat \<Rightarrow> vaddr"
  mmap_read_result :: "nat \<Rightarrow> int"

text \<open>
  The loop of \<^verbatim>\<open>mmap\<close>, lines 211 to 231. The \<^verbatim>\<open>off_t\<close> values stay between 0 and
  the file's length, so they are integers here. \<^verbatim>\<open>ASSERT (0)\<close> panics the kernel, and
  the two statements behind it are never reached.
\<close>

function mmap_loop ::
  "vm_state \<Rightarrow> mmap_env \<Rightarrow> file_ptr option \<Rightarrow> nat \<Rightarrow> int \<Rightarrow> int \<Rightarrow> vaddr \<Rightarrow> unit result" where
  "mmap_loop s env mf i rb off a =
     (if rb > 0
      then
        let page_read_bytes = (if rb < uint PGSIZE then rb else uint PGSIZE);
            page_zero_bytes = uint PGSIZE - page_read_bytes;
            kpage = palloc_result env i;
            s1 = log_event (Palloc_get_page kpage) s;
            s2 = SPT_insert s1 mf off a kpage (word_of_int page_read_bytes)
                   (word_of_int page_zero_bytes) True FOR_MMAP;
            s3 = push_page s2 a;
            s4 = log_event (File_read mf kpage page_read_bytes) s3
        in if mmap_read_result env i \<noteq> page_read_bytes then (Inl Panic, s4)
           else
             mmap_loop
               (log_event (Memset_zero (kpage + word_of_int page_read_bytes)
                             (word_of_int page_zero_bytes)) s4)
               env mf (Suc i) (rb - page_read_bytes) (off + page_read_bytes) (a + PGSIZE)
      else (Inr (), s))"
  by pat_completeness auto
termination
  by (relation "measure (\<lambda>(s, env, mf, i, rb, off, a). nat rb)") (auto simp: PGSIZE_def)

declare mmap_loop.simps [simp del]

definition mmap :: "vm_state \<Rightarrow> int \<Rightarrow> vaddr \<Rightarrow> mmap_env \<Rightarrow> int result" where
  "mmap s fd addr env =
     (if fd = 0 \<or> fd = 1 \<or> addr = 0 then (Inr (- 1), s)
      else if pg_ofs addr \<noteq> 0 then (Inr (- 1), s)
      else
        case fd_lookup s fd of
          Inl e \<Rightarrow> (Inl e, s)
        | Inr None \<Rightarrow> (Inr (- 1), s)
        | Inr (Some fl) \<Rightarrow>
            let len = length_result env
            in if len = 0 then (Inr (- 1), s)
               else if find_mapping_addr (mmap_table s) addr \<noteq> None then (Inr (- 1), s)
               else if addr \<ge> PHYS_BASE - PGSIZE \<or> addr \<le> data_segment_start s
               then (Inr (- 1), s)
               else
                 let m = \<lparr>m_id = int (length (mmap_table s)) + 1, m_addr = addr,
                          m_size = len, m_file = reopen_result env, m_fd = fd,
                          m_pages = []\<rparr>;
                     s1 = log_event (File_reopen (Some fl) (reopen_result env)) s;
                     s2 = s1\<lparr>mmap_table := mmap_table s1 @ [m]\<rparr>
                 in case mmap_loop s2 env (m_file m) 0 len 0 addr of
                      (Inl e, s3) \<Rightarrow> (Inl e, s3)
                    | (Inr u, s3) \<Rightarrow> (Inr (m_id m), s3))"

text \<open>
  \<^verbatim>\<open>munmap_write\<close>: the hash iterator walks the whole supplemental page table.
\<close>

definition write_back_page :: "vm_state \<Rightarrow> vaddr \<times> page \<Rightarrow> vm_state" where
  "write_back_page s kp =
     (let p = snd kp
      in if purpose p \<noteq> FOR_MMAP then s
         else if pagedir_is_dirty s (page_addr p)
         then log_event (File_write_at (page_file p) (page_addr p) (read_bytes p) (ofs p)) s
         else s)"

definition munmap_write :: "vm_state \<Rightarrow> int \<Rightarrow> unit result" where
  "munmap_write s mapping =
     (case find_mapping_id (mmap_table s) mapping of
        None \<Rightarrow> sys_exit s (- 1)
      | Some m \<Rightarrow>
          let s1 = log_event Lock_acquire s;
              s2 = foldl write_back_page s1 (SPT s1)
          in (Inr (), log_event Lock_release s2))"

text \<open>One turn of the loop of \<^verbatim>\<open>munmap_free\<close> over the pages of the mapping.\<close>

definition free_mapped_page :: "vm_state \<Rightarrow> vaddr \<Rightarrow> vm_state" where
  "free_mapped_page s a =
     (let s1 = frame_free s a;
          s2 = pagedir_clear_page s1 a
      in s2\<lparr>SPT := AList.delete a (SPT s2)\<rparr>)"

definition munmap_free :: "vm_state \<Rightarrow> int \<Rightarrow> unit result" where
  "munmap_free s mapping =
     (case find_mapping_id (mmap_table s) mapping of
        None \<Rightarrow> sys_exit s (- 1)
      | Some m \<Rightarrow>
          let s1 = foldl free_mapped_page s (m_pages m)
          in (Inr (), s1\<lparr>mmap_table := remove_mapping mapping (mmap_table s1)\<rparr>))"

definition munmap :: "vm_state \<Rightarrow> int \<Rightarrow> unit result" where
  "munmap s mapping =
     (case munmap_write s mapping of
        (Inl e, s1) \<Rightarrow> (Inl e, s1)
      | (Inr u, s1) \<Rightarrow> munmap_free s1 mapping)"

section \<open>Notions used by the properties\<close>


fun is_touch :: "event \<Rightarrow> bool" where
  "is_touch (Touch a) = True"
| "is_touch e = False"

text \<open>Calls among which there is neither a read of a byte nor the taking of the lock.\<close>

definition quiet :: "event list \<Rightarrow> bool" where
  "quiet evs = (Lock_acquire \<notin> set evs \<and> filter is_touch evs = [])"



text \<open>
  The pages of a mapping of a file of \<open>len\<close> bytes, as the specification counts them:
  \<open>\<lceil>len / PGSIZE\<rceil>\<close> pages, page \<open>k\<close> holding the \<open>min PGSIZE (len - k * PGSIZE)\<close> bytes
  of the file from offset \<open>k * PGSIZE\<close>, the rest of the page being zero.
\<close>

definition mmap_chunk :: "int \<Rightarrow> nat \<Rightarrow> int" where
  "mmap_chunk len k = min 4096 (len - int k * 4096)"

definition mmap_page_count :: "int \<Rightarrow> nat" where
  "mmap_page_count len = nat ((len + 4095) div 4096)"

definition mmap_entry :: "file_ptr option \<Rightarrow> vaddr \<Rightarrow> int \<Rightarrow> vaddr \<Rightarrow> int \<Rightarrow> page" where
  "mmap_entry mf kpage off a n =
     \<lparr>page_file = mf, ofs = off, page_addr = a, frame_addr = kpage,
      read_bytes = word_of_int n, zero_bytes = word_of_int (4096 - n),
      is_writable = True, purpose = FOR_MMAP, is_swapped = False, swap_i = 0\<rparr>"

definition mmap_events :: "file_ptr option \<Rightarrow> vaddr \<Rightarrow> int \<Rightarrow> event list" where
  "mmap_events mf kpage n =
     [Palloc_get_page kpage, File_read mf kpage n,
      Memset_zero (kpage + word_of_int n) (word_of_int (4096 - n))]"

text \<open>The state in which the loop of \<^verbatim>\<open>mmap\<close> ends when no read comes up short, in closed form.\<close>

definition mmap_loop_result ::
  "vm_state \<Rightarrow> mmap_env \<Rightarrow> file_ptr option \<Rightarrow> nat \<Rightarrow> int \<Rightarrow> int \<Rightarrow> vaddr \<Rightarrow> vm_state" where
  "mmap_loop_result s env mf i rb off a =
     (let n = mmap_page_count rb
      in s\<lparr>SPT := foldl (\<lambda>sp k. AList.update (a + of_nat k * PGSIZE)
                     (mmap_entry mf (palloc_result env (i + k)) (off + int k * 4096)
                        (a + of_nat k * PGSIZE) (mmap_chunk rb k)) sp) (SPT s) [0..<n],
           mmap_table := butlast (mmap_table s) @
             [(last (mmap_table s))\<lparr>m_pages := m_pages (last (mmap_table s)) @
                 map (\<lambda>k. a + of_nat k * PGSIZE) [0..<n]\<rparr>],
           trace := trace s @
             concat (map (\<lambda>k. mmap_events mf (palloc_result env (i + k)) (mmap_chunk rb k))
                       [0..<n])\<rparr>)"

text \<open>
  The write-back of \<^verbatim>\<open>munmap\<close>, as a property of the table: the entries of purpose
  \<^verbatim>\<open>FOR_MMAP\<close> whose page is dirty in the page directory, and the write each of them
  gets, from its page to its file at its offset and length.
\<close>

definition needs_write_back :: "vm_state \<Rightarrow> vaddr \<times> page \<Rightarrow> bool" where
  "needs_write_back s kp =
     (purpose (snd kp) = FOR_MMAP \<and> pagedir_is_dirty s (page_addr (snd kp)))"

definition write_back_event :: "vaddr \<times> page \<Rightarrow> event" where
  "write_back_event kp =
     File_write_at (page_file (snd kp)) (page_addr (snd kp)) (read_bytes (snd kp)) (ofs (snd kp))"

section \<open>Example states\<close>

text \<open>
  A process with an empty supplemental page table, three open files (descriptors 2, 3
  and 4 of a table of 130) and no mapping.
\<close>

definition ex_state :: vm_state where
  "ex_state =
     \<lparr>SPT = [], pagedir = Map.empty, frame_table = Map.empty,
      tid = 1, thread_esp = 0xBFFFFFE0, exit_status = 0,
      fd_table = [None, None, Some 5, Some 6, Some 7] @ replicate 125 None,
      mmap_table = [], data_segment_start = 0x08050000, trace = []\<rparr>"

definition ex_env :: fault_env where
  "ex_env = \<lparr>alloc_kpage = 0xC0200000, read_result = 4096, install_ok = True\<rparr>"

definition ex_page :: "vaddr \<Rightarrow> purpose \<Rightarrow> bool \<Rightarrow> page" where
  "ex_page a pur sw =
     \<lparr>page_file = (if pur = FOR_STACK then None else Some 5), ofs = 0, page_addr = a,
      frame_addr = 0, read_bytes = (if pur = FOR_STACK then 0 else 4096),
      zero_bytes = (if pur = FOR_STACK then 4096 else 0), is_writable = True,
      purpose = pur, is_swapped = sw, swap_i = (if sw then 3 else 0)\<rparr>"

definition ex_frame :: "vaddr \<Rightarrow> intr_frame" where
  "ex_frame sp = \<lparr>error_code = 6, if_esp = sp\<rparr>"


definition ex_file_state :: vm_state where
  "ex_file_state = ex_state\<lparr>SPT := [(0x08048000, ex_page 0x08048000 FOR_FILE False)]\<rparr>"



definition ex_mmap_env :: "int \<Rightarrow> file_ptr \<Rightarrow> mmap_env" where
  "ex_mmap_env len h =
     \<lparr>length_result = len, reopen_result = Some h,
      palloc_result = (\<lambda>i. 0xC0300000 + of_nat i * PGSIZE),
      mmap_read_result = (\<lambda>i. min 4096 (len - int i * 4096))\<rparr>"

text \<open>
  A process with two mappings of one page each, of the files 11 and 12; the page of
  the second mapping has been written to.
\<close>

definition ex_mapping :: "int \<Rightarrow> vaddr \<Rightarrow> file_ptr \<Rightarrow> int \<Rightarrow> mapping" where
  "ex_mapping i a h d =
     \<lparr>m_id = i, m_addr = a, m_size = 4096, m_file = Some h, m_fd = d, m_pages = [a]\<rparr>"

definition ex_two_mappings :: vm_state where
  "ex_two_mappings =
     ex_state
       \<lparr>SPT := [(0x10000000, (ex_page 0x10000000 FOR_MMAP False)\<lparr>page_file := Some 11\<rparr>),
                (0x10001000, (ex_page 0x10001000 FOR_MMAP False)\<lparr>page_file := Some 12\<rparr>)],
        pagedir := [0x10000000 \<mapsto> \<lparr>pte_frame = 0xC0200000, pte_writable = True, pte_dirty = False\<rparr>,
                    0x10001000 \<mapsto> \<lparr>pte_frame = 0xC0201000, pte_writable = True, pte_dirty = True\<rparr>],
        mmap_table := [ex_mapping 1 0x10000000 11 2, ex_mapping 2 0x10001000 12 3]\<rparr>"

text \<open>
  A run of four calls: two files are mapped, the first mapping is removed, a third
  file is mapped.
\<close>

definition ex_seq1 :: vm_state where
  "ex_seq1 = snd (mmap ex_state 2 0x10000000 (ex_mmap_env 100 11))"

definition ex_seq2 :: vm_state where
  "ex_seq2 = snd (mmap ex_seq1 3 0x10001000 (ex_mmap_env 100 12))"

definition ex_seq3 :: vm_state where
  "ex_seq3 = snd (munmap ex_seq2 1)"

definition ex_seq4 :: vm_state where
  "ex_seq4 = snd (mmap ex_seq3 4 0x10002000 (ex_mmap_env 100 13))"

section \<open>Properties of the page-fault handler\<close>

lemmas vm_defs = log_event_def frame_alloc_def frame_modify_def frame_free_def SPT_modify_def
  SPT_insert_def pagedir_set_page_def SD_read_def sys_exit_def SPT_search_def

text \<open>
  C8: a page fault that is served by an existing entry of purpose \<^verbatim>\<open>FOR_STACK\<close>,
  not loaded or swapped, and returns, has set the stack pointer saved on the thread
  to the faulting address.
\<close>

theorem stack_entry_fault_sets_esp:
  assumes "SPT_search s (pg_round_down fault_addr) = Some p"
    and "purpose p = FOR_STACK"
    and "page_fault s f fault_addr env = (Inr u, s')"
  shows "thread_esp s' = fault_addr"
  using assms
  by (auto simp: page_fault_def Let_def sys_exit_def load_stack_def load_stack_from_swap_def
      split: if_splits)

lemma pg_round_down_ex: "pg_round_down 0xBFFFE010 = 0xBFFFE000"
  by (simp add: pg_round_down_def PGSIZE_def)

theorem stack_entry_fault_sets_esp_witness:
  "thread_esp (snd (page_fault (ex_state\<lparr>SPT := [(0xBFFFE000, ex_page 0xBFFFE000 FOR_STACK False)]\<rparr>)
      (ex_frame 0xBFFFF000) 0xBFFFE010 ex_env)) = 0xBFFFE010 \<and>
   thread_esp (snd (page_fault (ex_state\<lparr>SPT := [(0xBFFFE000, ex_page 0xBFFFE000 FOR_STACK True)]\<rparr>)
      (ex_frame 0xBFFFF000) 0xBFFFE010 ex_env)) = 0xBFFFE010"
proof -
  let ?s = "\<lambda>sw. ex_state\<lparr>SPT := [(0xBFFFE000, ex_page 0xBFFFE000 FOR_STACK sw)]\<rparr>"
  have found: "SPT_search (?s sw) (pg_round_down 0xBFFFE010) = Some (ex_page 0xBFFFE000 FOR_STACK sw)" for sw
    by (simp add: SPT_search_def pg_round_down_ex)
  have stack: "purpose (ex_page 0xBFFFE000 FOR_STACK sw) = FOR_STACK" for sw
    by (simp add: ex_page_def)
  have ok: "fst (page_fault (?s sw) (ex_frame 0xBFFFF000) 0xBFFFE010 ex_env) = Inr ()" for sw
    by (simp add: page_fault_def Let_def SPT_search_def pg_round_down_ex is_user_vaddr_def
        PHYS_BASE_def ex_page_def ex_frame_def PF_W_def load_stack_def load_stack_from_swap_def)
  have run: "page_fault (?s sw) (ex_frame 0xBFFFF000) 0xBFFFE010 ex_env =
      (Inr (), snd (page_fault (?s sw) (ex_frame 0xBFFFF000) 0xBFFFE010 ex_env))" for sw
    using ok [of sw] by (metis prod.collapse)
  show ?thesis
    using stack_entry_fault_sets_esp [OF found stack run]
    by blast
qed


subsection \<open>Faults with no entry: stack growth\<close>

lemma fault_below_stack_limit_exits:
  assumes "SPT_search s (pg_round_down fault_addr) = None"
    and "fault_addr < PHYS_BASE - 0x800000"
  shows "page_fault s f fault_addr env = sys_exit s (- 1)"
proof -
  from assms(2) have "fault_addr \<le> PHYS_BASE - 0x800000" by simp
  with assms(1) show ?thesis
    by (simp add: page_fault_def Let_def)
qed

lemma fault_above_stack_limit:
  assumes "SPT_search s (pg_round_down fault_addr) = None"
    and "PHYS_BASE - 0x800000 < fault_addr" and "is_user_vaddr fault_addr"
  shows "page_fault s f fault_addr env =
    (if (if error_code f AND PF_U \<noteq> 0 then if_esp f else thread_esp s) - 32 \<le> fault_addr
     then grow_stack s fault_addr env else sys_exit s (- 1))"
proof -
  from assms(2) have "fault_addr \<noteq> 0"
    by (auto simp: PHYS_BASE_def)
  with assms show ?thesis
    by (auto simp: page_fault_def Let_def)
qed

lemma grow_stack_effect:
  "grow_stack s fault_addr env = (r, s') \<Longrightarrow>
     r = Inr () \<and>
     SPT_search s' (pg_round_down fault_addr) =
       Some \<lparr>page_file = None, ofs = 0, page_addr = pg_round_down fault_addr,
             frame_addr = alloc_kpage env, read_bytes = 0, zero_bytes = PGSIZE,
             is_writable = True, purpose = FOR_STACK, is_swapped = False, swap_i = 0\<rparr> \<and>
     trace s' = trace s @ [Frame_alloc [PAL_USER, PAL_ZERO] False (alloc_kpage env)] \<and>
     pagedir s' = (if install_ok env
        then (pagedir s)(pg_round_down fault_addr \<mapsto>
               \<lparr>pte_frame = alloc_kpage env, pte_writable = True, pte_dirty = False\<rparr>)
        else pagedir s) \<and>
     thread_esp s' = fault_addr"
  by (auto simp: grow_stack_def Let_def vm_defs update_conv')


text \<open>
  C1: with no entry for the faulting page, a fault at or above \<^verbatim>\<open>PHYS_BASE - 8 MiB\<close>
  and within 32 bytes below the stack pointer should grow the stack. At the address
  \<^verbatim>\<open>PHYS_BASE - 8 MiB\<close> itself the handler's comparison \<^verbatim>\<open><=\<close> terminates the
  process with status -1 whatever the stack pointer is: the lowest byte of the 8 MiB
  stack region is refused, while every other byte of its page is accepted.
\<close>

theorem fault_at_stack_limit_exits:
  assumes "SPT_search s (pg_round_down (PHYS_BASE - 0x800000)) = None"
  shows "fst (page_fault s f (PHYS_BASE - 0x800000) env) = Inl (Exit (- 1))"
  using assms
  by (simp add: page_fault_def Let_def sys_exit_def)

theorem fault_at_stack_limit_exits_witness:
  "fst (page_fault ex_state (ex_frame (PHYS_BASE - 0x800000)) (PHYS_BASE - 0x800000) ex_env)
     = Inl (Exit (- 1))"
proof -
  have "SPT_search ex_state (pg_round_down (PHYS_BASE - 0x800000)) = None"
    by (simp add: SPT_search_def ex_state_def)
  from fault_at_stack_limit_exits [OF this] show ?thesis .
qed

subsection \<open>Faults on pages read from a file\<close>

lemma pg_round_down_ex2: "pg_round_down 0x08048123 = 0x08048000"
  by (simp add: pg_round_down_def PGSIZE_def)

lemma is_user_ex2: "is_user_vaddr 0x08048123"
  by (simp add: is_user_vaddr_def PHYS_BASE_def)

lemma short_read_frees_and_exits:
  assumes "fault_addr \<noteq> 0" and "is_user_vaddr fault_addr"
    and "SPT_search s (pg_round_down fault_addr) = Some p"
    and "purpose p \<noteq> FOR_STACK" and "\<not> is_swapped p"
    and "error_code f AND PF_W = 0 \<or> is_writable p"
    and "read_result env \<noteq> sint (read_bytes p)"
  shows "fst (page_fault s f fault_addr env) = Inl (Exit (- 1)) \<and>
     frame_table (snd (page_fault s f fault_addr env)) (alloc_kpage env) = None \<and>
     last (trace (snd (page_fault s f fault_addr env))) = Frame_free (alloc_kpage env)"
proof -
  from assms have "page_fault s f fault_addr env = load_from_file s (pg_round_down fault_addr) p env"
    by (cases "purpose p") (auto simp: page_fault_def Let_def)
  with assms(7) show ?thesis
    by (simp add: load_from_file_def Let_def vm_defs)
qed

text \<open>
  C4: materializing a \<^verbatim>\<open>FOR_FILE\<close> or \<^verbatim>\<open>FOR_MMAP\<close> page should free the frame and
  terminate the process with -1 when the file read is short or when the page cannot
  be installed. The short read does (lemma \<open>short_read_frees_and_exits\<close>). When
  \<^verbatim>\<open>pagedir_set_page\<close> fails, the handler only prints a message: it returns
  normally, the frame stays in the frame table, nothing is mapped and no exit status
  is set.
\<close>

theorem install_failure_returns:
  assumes "fault_addr \<noteq> 0" and "is_user_vaddr fault_addr"
    and "SPT_search s (pg_round_down fault_addr) = Some p"
    and "purpose p \<noteq> FOR_STACK" and "\<not> is_swapped p"
    and "error_code f AND PF_W = 0 \<or> is_writable p"
    and "read_result env = sint (read_bytes p)"
    and "\<not> install_ok env"
  shows "fst (page_fault s f fault_addr env) = Inr () \<and>
     frame_table (snd (page_fault s f fault_addr env)) (alloc_kpage env) =
       Some \<lparr>f_page_addr = page_addr p, is_evictable = True, owner_thread = Some (tid s)\<rparr> \<and>
     trace (snd (page_fault s f fault_addr env)) =
       trace s @ [File_seek (page_file p) (ofs p), Frame_alloc [PAL_USER] True (alloc_kpage env),
                  File_read (page_file p) (alloc_kpage env) (sint (read_bytes p)),
                  Memset_zero (alloc_kpage env + read_bytes p) (zero_bytes p)] \<and>
     pagedir (snd (page_fault s f fault_addr env)) = pagedir s \<and>
     exit_status (snd (page_fault s f fault_addr env)) = exit_status s"
proof -
  from assms have "page_fault s f fault_addr env = load_from_file s (pg_round_down fault_addr) p env"
    by (cases "purpose p") (auto simp: page_fault_def Let_def)
  with assms(7,8) show ?thesis
    by (simp add: load_from_file_def Let_def vm_defs)
qed

theorem install_failure_returns_witness:
  "fst (page_fault ex_file_state (ex_frame 0xBFFFF000) 0x08048123 (ex_env\<lparr>install_ok := False\<rparr>))
     = Inr () \<and>
   frame_table (snd (page_fault ex_file_state (ex_frame 0xBFFFF000) 0x08048123
       (ex_env\<lparr>install_ok := False\<rparr>))) 0xC0200000 =
     Some \<lparr>f_page_addr = 0x08048000, is_evictable = True, owner_thread = Some 1\<rparr> \<and>
   pagedir (snd (page_fault ex_file_state (ex_frame 0xBFFFF000) 0x08048123
       (ex_env\<lparr>install_ok := False\<rparr>))) 0x08048000 = None"
proof -
  have nz: "(0x08048123 :: vaddr) \<noteq> 0" by simp
  have found: "SPT_search ex_file_state (pg_round_down 0x08048123) =
      Some (ex_page 0x08048000 FOR_FILE False)"
    by (simp add: SPT_search_def pg_round_down_ex2 ex_file_state_def)
  have pur: "purpose (ex_page 0x08048000 FOR_FILE False) \<noteq> FOR_STACK"
    and sw: "\<not> is_swapped (ex_page 0x08048000 FOR_FILE False)"
    and wr: "error_code (ex_frame 0xBFFFF000) AND PF_W = 0 \<or>
             is_writable (ex_page 0x08048000 FOR_FILE False)"
    and rd: "read_result (ex_env\<lparr>install_ok := False\<rparr>) =
             sint (read_bytes (ex_page 0x08048000 FOR_FILE False))"
    and inst: "\<not> install_ok (ex_env\<lparr>install_ok := False\<rparr>)"
    by (simp_all add: ex_page_def ex_env_def)
  show ?thesis
    using install_failure_returns [OF nz is_user_ex2 found pur sw wr rd inst]
    by (simp add: ex_page_def ex_env_def ex_file_state_def ex_state_def)
qed


section \<open>Properties of read and write\<close>

lemma quiet_simps [simp]:
  "quiet []"
  "quiet (xs @ ys) = (quiet xs \<and> quiet ys)"
  "quiet (e # xs) = (e \<noteq> Lock_acquire \<and> \<not> is_touch e \<and> quiet xs)"
  by (auto simp: quiet_def)


lemma page_present_log [simp]: "page_present (log_event e s) a = page_present s a"
  by (simp add: page_present_def log_event_def)





























section \<open>Properties of mmap\<close>

lemmas mmap_eval = mmap_def mmap_loop.simps fd_lookup_def FD_TABLE_SIZE_def pg_ofs_def PGSIZE_def
  PHYS_BASE_def find_mapping_addr_def find_mapping_id_def push_page_def Let_def vm_defs
  ex_state_def ex_mmap_env_def

lemma upt_Suc_shift: "[0..<Suc m] = 0 # map Suc [0..<m]"
  by (simp add: upt_conv_Cons map_Suc_upt del: upt_Suc)

lemma mmap_page_count_step:
  "0 < rb \<Longrightarrow> mmap_page_count rb = Suc (mmap_page_count (rb - min 4096 rb))"
  by (auto simp: mmap_page_count_def min_def)

lemma mmap_page_count_small: "rb < 4096 \<Longrightarrow> mmap_page_count (rb - min 4096 rb) = 0"
  by (auto simp: mmap_page_count_def min_def)

lemma mmap_chunk_step: "4096 \<le> rb \<Longrightarrow> mmap_chunk (rb - 4096) k = mmap_chunk rb (Suc k)"
  by (simp add: mmap_chunk_def algebra_simps)

lemma push_page_last:
  "mmap_table s = tbl @ [m] \<Longrightarrow>
     push_page s a = s\<lparr>mmap_table := tbl @ [m\<lparr>m_pages := m_pages m @ [a]\<rparr>]\<rparr>"
  by (simp add: push_page_def)

lemma mmap_loop_result_done:
  "rb \<le> 0 \<Longrightarrow> mmap_table s \<noteq> [] \<Longrightarrow> mmap_loop_result s env mf i rb off a = s"
  by (simp add: mmap_loop_result_def mmap_page_count_def)

lemma mmap_loop_result_step:
  assumes "0 < rb" and "mmap_table s \<noteq> []"
  shows "mmap_loop_result s env mf i rb off a =
     mmap_loop_result
       (log_event (Memset_zero (palloc_result env i + word_of_int (min 4096 rb))
                     (word_of_int (4096 - min 4096 rb)))
         (log_event (File_read mf (palloc_result env i) (min 4096 rb))
           (push_page
             (SPT_insert (log_event (Palloc_get_page (palloc_result env i)) s) mf off a
                (palloc_result env i) (word_of_int (min 4096 rb))
                (word_of_int (4096 - min 4096 rb)) True FOR_MMAP) a)))
       env mf (Suc i) (rb - min 4096 rb) (off + min 4096 rb) (a + PGSIZE)"
proof -
  from assms(2) obtain tbl m where tbl: "mmap_table s = tbl @ [m]"
    by (metis append_butlast_last_id)
  show ?thesis
  proof (cases "rb < 4096")
    case True
    with assms(1) have n1: "mmap_page_count rb = 1"
      by (simp add: mmap_page_count_def)
    have n0: "mmap_page_count 0 = 0"
      by (simp add: mmap_page_count_def)
    from True assms(1) show ?thesis
      by (simp add: mmap_loop_result_def n1 n0 tbl push_page_def vm_defs mmap_entry_def
          mmap_events_def mmap_chunk_def Let_def)
  next
    case False
    then have m: "min 4096 rb = 4096" by simp
    from False have n: "mmap_page_count rb = Suc (mmap_page_count (rb - 4096))"
      using mmap_page_count_step [of rb] by simp
    from False have ch: "mmap_chunk (rb - 4096) k = mmap_chunk rb (Suc k)" for k
      by (simp add: mmap_chunk_step)
    have ch0: "mmap_chunk rb 0 = 4096"
      using False by (simp add: mmap_chunk_def)
    show ?thesis
      unfolding m mmap_loop_result_def n Let_def upt_Suc_shift
      by (simp add: tbl push_page_def vm_defs mmap_entry_def mmap_events_def ch ch0
          foldl_map comp_def algebra_simps PGSIZE_def)
  qed
qed

lemma push_page_nonempty: "mmap_table s \<noteq> [] \<Longrightarrow> mmap_table (push_page s a) \<noteq> []"
  by (cases "rev (mmap_table s)") (simp_all add: push_page_def)

lemma mmap_loop_success:
  "mmap_loop s env mf i rb off a = (Inr u, s') \<Longrightarrow> mmap_table s \<noteq> [] \<Longrightarrow>
     s' = mmap_loop_result s env mf i rb off a"
proof (induction s env mf i rb off a rule: mmap_loop.induct)
  case (1 s env mf i rb off a)
  show ?case
  proof (cases "0 < rb")
    case False
    with "1.prems" show ?thesis
      by (subst (asm) mmap_loop.simps) (simp add: mmap_loop_result_done)
  next
    case True
    let ?n = "if rb < uint PGSIZE then rb else uint PGSIZE"
    have n: "?n = min 4096 rb"
      by (simp add: PGSIZE_def min_def)
    let ?k = "palloc_result env i"
    let ?s1 = "log_event (Palloc_get_page ?k) s"
    let ?s2 = "SPT_insert ?s1 mf off a ?k (word_of_int ?n) (word_of_int (uint PGSIZE - ?n))
                 True FOR_MMAP"
    let ?s3 = "push_page ?s2 a"
    let ?s4 = "log_event (File_read mf ?k ?n) ?s3"
    let ?s5 = "log_event (Memset_zero (?k + word_of_int ?n) (word_of_int (uint PGSIZE - ?n))) ?s4"
    from True "1.prems"(1) have rd: "mmap_read_result env i = ?n"
      by (subst (asm) mmap_loop.simps) (simp add: Let_def split: if_splits)
    with True "1.prems"(1)
    have run: "mmap_loop ?s5 env mf (Suc i) (rb - ?n) (off + ?n) (a + PGSIZE) = (Inr u, s')"
      by (subst (asm) mmap_loop.simps) (simp add: Let_def)
    from "1.prems"(2) have ne: "mmap_table ?s5 \<noteq> []"
      by (simp add: push_page_nonempty vm_defs)
    have rd': "\<not> mmap_read_result env i \<noteq> ?n" using rd by simp
    have "s' = mmap_loop_result ?s5 env mf (Suc i) (rb - ?n) (off + ?n) (a + PGSIZE)"
      by (rule "1.IH" [OF True refl refl refl refl refl refl refl rd' run ne])
    also have "\<dots> = mmap_loop_result s env mf i rb off a"
      unfolding n using mmap_loop_result_step [OF True "1.prems"(2), of env mf i off a]
      by (simp add: PGSIZE_def)
    finally show ?thesis .
  qed
qed

lemma foldl_update_lookup:
  "inj_on key {..<n} \<Longrightarrow> j < n \<Longrightarrow>
     map_of (foldl (\<lambda>sp k. AList.update (key k) (val k) sp) sp0 [0..<n]) (key j) = Some (val j)"
proof (induction n)
  case 0
  then show ?case by simp
next
  case (Suc n)
  from Suc.prems(1) have inj: "inj_on key {..<n}"
    by (rule inj_on_subset) auto
  show ?case
  proof (cases "j = n")
    case True
    then show ?thesis by (simp add: update_conv')
  next
    case False
    with Suc.prems(2) have j: "j < n" by simp
    from Suc.prems(1) j have "key j \<noteq> key n"
      by (auto simp: inj_on_def)
    with Suc.IH [OF inj j] show ?thesis
      by (simp add: update_conv')
  qed
qed

lemma page_key_inj:
  assumes "j < 2 ^ 20" and "k < 2 ^ 20"
    and "(a :: vaddr) + of_nat j * PGSIZE = a + of_nat k * PGSIZE"
  shows "j = k"
proof -
  from assms(3) have "(of_nat (j * 4096) :: vaddr) = of_nat (k * 4096)"
    by (simp add: PGSIZE_def)
  then have "take_bit 32 (j * 4096) = take_bit 32 (k * 4096)"
    unfolding word_of_nat_eq_iff by simp
  moreover from assms(1) have "j * 4096 < 2 ^ 32" by simp
  moreover from assms(2) have "k * 4096 < 2 ^ 32" by simp
  ultimately have "j * 4096 = k * 4096"
    by (simp add: take_bit_nat_eq_self)
  then show ?thesis by simp
qed

lemma mmap_page_count_bound: "len < 2 ^ 31 \<Longrightarrow> mmap_page_count len \<le> 2 ^ 19"
  by (simp add: mmap_page_count_def)

text \<open>
  What a successful \<^verbatim>\<open>mmap\<close> of a file of \<open>L\<close> bytes (an \<^verbatim>\<open>off_t\<close>, so \<open>L < 2^31\<close>) leaves
  behind: for each of the \<open>\<lceil>L / PGSIZE\<rceil>\<close> pages it covers, one entry of purpose
  \<^verbatim>\<open>FOR_MMAP\<close>, writable, not swapped, with offset \<open>k * PGSIZE\<close>,
  \<open>read_bytes = min PGSIZE (L - k * PGSIZE)\<close> and \<open>zero_bytes = PGSIZE - read_bytes\<close>;
  the mapping lists these pages in order; the call changes neither the page directory
  nor the frame table. For every page the call takes a kernel page from
  \<^verbatim>\<open>palloc_get_page\<close>, stores it in the entry as its frame address, and reads the page's
  bytes from the re-opened file into it.
\<close>

lemma mmap_entries:
  assumes "mmap s fd addr env = (Inr i, s')" and "i \<noteq> - 1"
    and "length_result env < 2 ^ 31"
  shows "(\<forall>k < mmap_page_count (length_result env).
            SPT_search s' (addr + of_nat k * PGSIZE) =
              Some (mmap_entry (reopen_result env) (palloc_result env k) (int k * 4096)
                      (addr + of_nat k * PGSIZE) (mmap_chunk (length_result env) k))) \<and>
     m_pages (last (mmap_table s')) =
       map (\<lambda>k. addr + of_nat k * PGSIZE) [0..<mmap_page_count (length_result env)] \<and>
     pagedir s' = pagedir s \<and> frame_table s' = frame_table s \<and>
     trace s' = trace s @ File_reopen (fd_table s ! nat fd) (reopen_result env) #
       concat (map (\<lambda>k. mmap_events (reopen_result env) (palloc_result env k)
                            (mmap_chunk (length_result env) k))
                 [0..<mmap_page_count (length_result env)])"
proof -
  let ?len = "length_result env"
  let ?n = "mmap_page_count ?len"
  let ?m = "\<lparr>m_id = int (length (mmap_table s)) + 1, m_addr = addr, m_size = ?len,
             m_file = reopen_result env, m_fd = fd, m_pages = []\<rparr>"
  let ?s2 = "(log_event (File_reopen (fd_table s ! nat fd) (reopen_result env)) s)
               \<lparr>mmap_table := mmap_table s @ [?m]\<rparr>"
  have c1: "\<not> (fd = 0 \<or> fd = 1 \<or> addr = 0)"
    by (rule notI) (use assms(1,2) in \<open>simp add: mmap_def\<close>)
  have c2: "pg_ofs addr = 0"
    by (rule ccontr) (use assms(1,2) c1 in \<open>simp add: mmap_def\<close>)
  obtain fl where fl: "fd_lookup s fd = Inr (Some fl)"
  proof (cases "fd_lookup s fd")
    case (Inl e)
    with assms(1) c1 c2 show ?thesis by (simp add: mmap_def)
  next
    case (Inr o1)
    with assms(1,2) c1 c2 that show ?thesis by (cases o1) (simp_all add: mmap_def)
  qed
  then have tab: "fd_table s ! nat fd = Some fl"
    by (simp add: fd_lookup_def split: if_splits)
  have c3: "?len \<noteq> 0"
    by (rule notI) (use assms(1,2) c1 c2 fl in \<open>simp add: mmap_def\<close>)
  have c4: "find_mapping_addr (mmap_table s) addr = None"
    by (rule ccontr) (use assms(1,2) c1 c2 c3 fl in \<open>simp add: mmap_def\<close>)
  have c5: "\<not> (PHYS_BASE - PGSIZE \<le> addr \<or> addr \<le> data_segment_start s)"
    by (rule notI) (use assms(1,2) c1 c2 c3 c4 fl in \<open>simp add: mmap_def\<close>)
  have unfold: "mmap s fd addr env =
      (case mmap_loop ?s2 env (reopen_result env) 0 ?len 0 addr of
         (Inl e, s3) \<Rightarrow> (Inl e, s3)
       | (Inr u, s3) \<Rightarrow> (Inr (m_id ?m), s3))"
    using c1 c2 c3 c4 c5 by (simp add: mmap_def fl tab Let_def log_event_def)
  obtain u where loop: "mmap_loop ?s2 env (reopen_result env) 0 ?len 0 addr = (Inr u, s')"
  proof (cases "mmap_loop ?s2 env (reopen_result env) 0 ?len 0 addr")
    case (Pair r s3)
    with assms(1) unfold that show ?thesis by (cases r) simp_all
  qed
  have "mmap_table ?s2 \<noteq> []" by simp
  from mmap_loop_success [OF loop this]
  have s': "s' = mmap_loop_result ?s2 env (reopen_result env) 0 ?len 0 addr" .
  have inj: "inj_on (\<lambda>k. addr + of_nat k * PGSIZE) {..<?n}"
  proof (rule inj_onI)
    fix j k assume "j \<in> {..<?n}" "k \<in> {..<?n}"
      and eq: "addr + of_nat j * PGSIZE = addr + of_nat k * PGSIZE"
    with mmap_page_count_bound [OF assms(3)] have "j < 2 ^ 20" "k < 2 ^ 20" by simp_all
    then show "j = k" using eq by (rule page_key_inj)
  qed
  have look: "SPT_search s' (addr + of_nat k * PGSIZE) =
      Some (mmap_entry (reopen_result env) (palloc_result env k) (int k * 4096)
              (addr + of_nat k * PGSIZE) (mmap_chunk ?len k))" if "k < ?n" for k
    unfolding s' SPT_search_def mmap_loop_result_def Let_def
    using foldl_update_lookup [OF inj that,
        of "\<lambda>k. mmap_entry (reopen_result env) (palloc_result env k) (int k * 4096)
              (addr + of_nat k * PGSIZE) (mmap_chunk ?len k)" "SPT s"]
    by (simp add: log_event_def)
  from look show ?thesis
    by (simp add: s' mmap_loop_result_def Let_def log_event_def tab)
qed


lemma mmap_entries_example:
  "SPT_search (snd (mmap ex_state 2 0x10000000 (ex_mmap_env 5000 11))) 0x10001000 =
     Some \<lparr>page_file = Some 11, ofs = 4096, page_addr = 0x10001000, frame_addr = 0xC0301000,
           read_bytes = 904, zero_bytes = 3192, is_writable = True, purpose = FOR_MMAP,
           is_swapped = False, swap_i = 0\<rparr> \<and>
   m_pages (last (mmap_table (snd (mmap ex_state 2 0x10000000 (ex_mmap_env 5000 11))))) =
     [0x10000000, 0x10001000] \<and>
   pagedir (snd (mmap ex_state 2 0x10000000 (ex_mmap_env 5000 11))) = Map.empty"
proof -
  let ?r = "mmap ex_state 2 0x10000000 (ex_mmap_env 5000 11)"
  have "fst ?r = Inr 1" by (simp add: mmap_eval)
  then have run: "?r = (Inr 1, snd ?r)" by (metis prod.collapse)
  have ok: "(1 :: int) \<noteq> - 1" by simp
  have len: "length_result (ex_mmap_env 5000 11) < 2 ^ 31" by (simp add: ex_mmap_env_def)
  have n: "mmap_page_count 5000 = 2" by (simp add: mmap_page_count_def)
  have upt: "[0..<2] = [0, Suc 0]" by (simp add: upt_rec)
  have one: "1 < mmap_page_count (length_result (ex_mmap_env 5000 11))"
    by (simp add: ex_mmap_env_def n)
  note all = mmap_entries [OF run ok len]
  from all [THEN conjunct1, rule_format, OF one] all [THEN conjunct2]
  show ?thesis
    by (simp add: ex_mmap_env_def n upt mmap_entry_def mmap_chunk_def PGSIZE_def ex_state_def)
qed


text \<open>
  C2: \<^verbatim>\<open>mmap\<close> should only create the entries of the pages, not loaded, and neither
  allocate a frame nor read the file. A successful \<^verbatim>\<open>mmap\<close> of a file of 5000 bytes
  takes two kernel pages from \<^verbatim>\<open>palloc_get_page\<close> and reads 4096 and 904 bytes of the
  file into them; the pages are recorded as the frame addresses of the entries and
  mapped nowhere.
\<close>

theorem mmap_reads_file:
  "fst (mmap ex_state 2 0x10000000 (ex_mmap_env 5000 11)) = Inr 1 \<and>
   trace (snd (mmap ex_state 2 0x10000000 (ex_mmap_env 5000 11))) =
     [File_reopen (Some 5) (Some 11),
      Palloc_get_page 0xC0300000, File_read (Some 11) 0xC0300000 4096, Memset_zero 0xC0301000 0,
      Palloc_get_page 0xC0301000, File_read (Some 11) 0xC0301000 904, Memset_zero 0xC0301388 3192] \<and>
   map (\<lambda>kp. (fst kp, frame_addr (snd kp)))
       (SPT (snd (mmap ex_state 2 0x10000000 (ex_mmap_env 5000 11)))) =
     [(0x10000000, 0xC0300000), (0x10001000, 0xC0301000)] \<and>
   pagedir (snd (mmap ex_state 2 0x10000000 (ex_mmap_env 5000 11))) = Map.empty"
  by (simp add: mmap_eval)

subsection \<open>Validation\<close>

text \<open>
  With a descriptor inside the table, every failed validation returns -1 and leaves
  the state as it is.
\<close>

lemma mmap_rejects:
  assumes "fd = 0 \<or> fd = 1 \<or> addr = 0 \<or> pg_ofs addr \<noteq> 0 \<or>
     (0 \<le> fd \<and> fd < FD_TABLE_SIZE s \<and>
        (fd_table s ! nat fd = None \<or> length_result env = 0 \<or>
         find_mapping_addr (mmap_table s) addr \<noteq> None \<or>
         PHYS_BASE - PGSIZE \<le> addr \<or> addr \<le> data_segment_start s))"
  shows "mmap s fd addr env = (Inr (- 1), s)"
  using assms
  by (auto simp: mmap_def fd_lookup_def Let_def split: option.splits)

text \<open>
  C6: a call of \<^verbatim>\<open>mmap\<close> whose file is not open should return -1 without ending the
  process. \<^verbatim>\<open>mmap\<close> never compares \<open>fd\<close> with the bounds of the descriptor table,
  as \<^verbatim>\<open>read\<close>, \<^verbatim>\<open>write\<close>, \<^verbatim>\<open>filesize\<close>, \<^verbatim>\<open>seek\<close>, \<^verbatim>\<open>tell\<close> and \<^verbatim>\<open>close\<close> do: for
  a descriptor below 0 or beyond the table (and a page-aligned address that is not
  null) it reads \<^verbatim>\<open>fd_table[fd]\<close> outside the array instead of returning -1.
\<close>

theorem mmap_fd_outside_table:
  assumes "fd < 0 \<or> FD_TABLE_SIZE s \<le> fd"
    and "fd \<noteq> 0" and "fd \<noteq> 1" and "addr \<noteq> 0" and "pg_ofs addr = 0"
  shows "mmap s fd addr env = (Inl Out_of_bounds, s)"
  using assms
  by (auto simp: mmap_def fd_lookup_def)

theorem mmap_fd_outside_table_witness:
  "FD_TABLE_SIZE ex_state = 130 \<and>
   mmap ex_state 0x5678 0x10000000 (ex_mmap_env 4096 11) = (Inl Out_of_bounds, ex_state)"
proof -
  have size: "FD_TABLE_SIZE ex_state = 130"
    by (simp add: FD_TABLE_SIZE_def ex_state_def)
  then have out: "(0x5678 :: int) < 0 \<or> FD_TABLE_SIZE ex_state \<le> 0x5678" by simp
  have fd: "(0x5678 :: int) \<noteq> 0" "(0x5678 :: int) \<noteq> 1" by simp_all
  have a: "(0x10000000 :: vaddr) \<noteq> 0" "pg_ofs 0x10000000 = 0"
    by (simp_all add: pg_ofs_def PGSIZE_def)
  from mmap_fd_outside_table [OF out fd a] size show ?thesis by simp
qed

subsection \<open>Mapping ids\<close>

text \<open>The id of a new mapping is the number of mappings in the list plus one.\<close>

lemma mmap_returns_list_size:
  assumes "mmap s fd addr env = (Inr i, s')" and "i \<noteq> - 1"
  shows "i = int (length (mmap_table s)) + 1"
  using assms
  by (auto simp: mmap_def Let_def split: if_splits sum.splits option.splits prod.splits)

lemma ex_seq1_run: "mmap ex_state 2 0x10000000 (ex_mmap_env 100 11) =
  (Inr 1, ex_state\<lparr>
     SPT := [(0x10000000, mmap_entry (Some 11) 0xC0300000 0 0x10000000 100)],
     mmap_table := [\<lparr>m_id = 1, m_addr = 0x10000000, m_size = 100, m_file = Some 11, m_fd = 2,
                     m_pages = [0x10000000]\<rparr>],
     trace := [File_reopen (Some 5) (Some 11)] @ mmap_events (Some 11) 0xC0300000 100\<rparr>)"
  by (simp add: mmap_eval mmap_entry_def mmap_events_def)

lemma ex_seq2_run: "mmap ex_seq1 3 0x10001000 (ex_mmap_env 100 12) =
  (Inr 2, ex_seq1\<lparr>
     SPT := SPT ex_seq1 @ [(0x10001000, mmap_entry (Some 12) 0xC0300000 0 0x10001000 100)],
     mmap_table := mmap_table ex_seq1 @
        [\<lparr>m_id = 2, m_addr = 0x10001000, m_size = 100, m_file = Some 12, m_fd = 3,
                     m_pages = [0x10001000]\<rparr>],
     trace := trace ex_seq1 @ [File_reopen (Some 6) (Some 12)] @ mmap_events (Some 12) 0xC0300000 100\<rparr>)"
  unfolding ex_seq1_def ex_seq1_run snd_conv
  by (simp add: mmap_eval mmap_entry_def mmap_events_def)

text \<open>
  C7: the ids of the active mappings of a process should differ. \<^verbatim>\<open>mmap\<close> numbers a
  mapping with the length of the list plus one, so after two mappings (ids 1 and 2)
  and the removal of the first, the next mapping gets the id 2 again while the
  mapping 2 at \<open>0x10001000\<close> is still active.
\<close>

theorem mapping_id_reused:
  "fst (mmap ex_state 2 0x10000000 (ex_mmap_env 100 11)) = Inr 1 \<and>
   fst (mmap ex_seq1 3 0x10001000 (ex_mmap_env 100 12)) = Inr 2 \<and>
   fst (munmap ex_seq2 1) = Inr () \<and>
   fst (mmap ex_seq3 4 0x10002000 (ex_mmap_env 100 13)) = Inr 2 \<and>
   map (\<lambda>m. (m_id m, m_addr m)) (mmap_table ex_seq4) = [(2, 0x10001000), (2, 0x10002000)]"
  unfolding ex_seq4_def ex_seq3_def ex_seq2_def ex_seq2_run ex_seq1_def ex_seq1_run snd_conv fst_conv
  by (simp add: mmap_eval mmap_entry_def mmap_events_def munmap_def munmap_write_def
      munmap_free_def write_back_page_def free_mapped_page_def pagedir_clear_page_def
      pagedir_is_dirty_def)


section \<open>Properties of munmap\<close>

lemma foldl_write_back:
  "pagedir s1 = pagedir s \<Longrightarrow>
     foldl write_back_page s1 xs =
       s1\<lparr>trace := trace s1 @ map write_back_event (filter (needs_write_back s) xs)\<rparr>"
proof (induction xs arbitrary: s1)
  case Nil
  then show ?case by simp
next
  case (Cons x xs)
  have same: "pagedir (write_back_page s1 x) = pagedir s"
    using Cons.prems by (simp add: write_back_page_def Let_def log_event_def)
  have step: "write_back_page s1 x =
      s1\<lparr>trace := trace s1 @ map write_back_event (filter (needs_write_back s) [x])\<rparr>"
    using Cons.prems
    by (simp add: write_back_page_def Let_def log_event_def needs_write_back_def
        write_back_event_def pagedir_is_dirty_def)
  show ?case
    using Cons.IH [OF same] by (simp add: step)
qed

lemma munmap_write_result:
  assumes "find_mapping_id (mmap_table s) mapping = Some m"
  shows "munmap_write s mapping =
     (Inr (), s\<lparr>trace := trace s @ Lock_acquire #
                  map write_back_event (filter (needs_write_back s) (SPT s)) @ [Lock_release]\<rparr>)"
proof -
  have "pagedir (log_event Lock_acquire s) = pagedir s"
    by (simp add: log_event_def)
  from foldl_write_back [OF this, of "SPT s"] assms show ?thesis
    by (simp add: munmap_write_def Let_def log_event_def)
qed

lemma foldl_free_mapped_page:
  "mmap_table (foldl free_mapped_page s xs) = mmap_table s \<and>
   trace (foldl free_mapped_page s xs) = trace s @ map Frame_free xs"
  by (induction xs arbitrary: s)
    (simp_all add: free_mapped_page_def Let_def frame_free_def pagedir_clear_page_def log_event_def)

lemma munmap_result:
  assumes "find_mapping_id (mmap_table s) mapping = Some m"
  shows "fst (munmap s mapping) = Inr () \<and>
     mmap_table (snd (munmap s mapping)) = remove_mapping mapping (mmap_table s) \<and>
     trace (snd (munmap s mapping)) =
       trace s @ Lock_acquire # map write_back_event (filter (needs_write_back s) (SPT s)) @
         Lock_release # map Frame_free (m_pages m)"
proof -
  let ?s1 = "s\<lparr>trace := trace s @ Lock_acquire #
                map write_back_event (filter (needs_write_back s) (SPT s)) @ [Lock_release]\<rparr>"
  have w: "munmap_write s mapping = (Inr (), ?s1)"
    using assms by (rule munmap_write_result)
  have run: "munmap s mapping =
      (Inr (), (foldl free_mapped_page ?s1 (m_pages m))
         \<lparr>mmap_table := remove_mapping mapping (mmap_table (foldl free_mapped_page ?s1 (m_pages m)))\<rparr>)"
    by (simp add: munmap_def w munmap_free_def assms Let_def)
  show ?thesis
    by (simp add: run foldl_free_mapped_page)
qed

lemma ex_two_mappings_found:
  "find_mapping_id (mmap_table ex_two_mappings) 1 = Some (ex_mapping 1 0x10000000 11 2)"
  by (simp add: find_mapping_id_def ex_two_mappings_def ex_mapping_def)

lemma ex_two_mappings_write_back:
  "map write_back_event (filter (needs_write_back ex_two_mappings) (SPT ex_two_mappings))
     = [File_write_at (Some 12) 0x10001000 4096 0]"
  by (simp add: ex_two_mappings_def ex_state_def ex_page_def
      needs_write_back_def write_back_event_def pagedir_is_dirty_def)

lemma ex_two_mappings_trace: "trace ex_two_mappings = []"
  by (simp add: ex_two_mappings_def ex_state_def)

text \<open>
  C9: for an existing mapping, the write-back phase of \<^verbatim>\<open>munmap\<close> walks the whole
  supplemental page table of the process and, under the file-system lock, writes
  every dirty page of purpose \<^verbatim>\<open>FOR_MMAP\<close> to its file at its recorded offset and
  length, whichever mapping the page belongs to, and makes no other call; \<^verbatim>\<open>munmap\<close>
  begins with this phase.
\<close>

theorem munmap_write_all_dirty_mmap_pages:
  assumes "find_mapping_id (mmap_table s) mapping = Some m"
  shows "fst (munmap_write s mapping) = Inr () \<and>
     trace (snd (munmap_write s mapping)) =
       trace s @ Lock_acquire #
         map write_back_event (filter (needs_write_back s) (SPT s)) @ [Lock_release] \<and>
     (\<forall>kp \<in> set (SPT s).
        purpose (snd kp) = FOR_MMAP \<and> pagedir_is_dirty s (page_addr (snd kp)) \<longrightarrow>
        File_write_at (page_file (snd kp)) (page_addr (snd kp)) (read_bytes (snd kp))
          (ofs (snd kp)) \<in> set (trace (snd (munmap_write s mapping)))) \<and>
     (\<exists>rest. trace (snd (munmap s mapping)) =
        trace (snd (munmap_write s mapping)) @ rest)"
proof -
  note w = munmap_write_result [OF assms]
  have "write_back_event kp \<in> set (map write_back_event (filter (needs_write_back s) (SPT s)))"
    if "kp \<in> set (SPT s)" and "needs_write_back s kp" for kp
    using that by simp
  then have every:
    "\<forall>kp \<in> set (SPT s).
        purpose (snd kp) = FOR_MMAP \<and> pagedir_is_dirty s (page_addr (snd kp)) \<longrightarrow>
        File_write_at (page_file (snd kp)) (page_addr (snd kp)) (read_bytes (snd kp))
          (ofs (snd kp)) \<in> set (trace (snd (munmap_write s mapping)))"
    by (auto simp: w needs_write_back_def write_back_event_def)
  have "\<exists>rest. trace (snd (munmap s mapping)) = trace (snd (munmap_write s mapping)) @ rest"
    using munmap_result [OF assms] by (simp add: w)
  with every show ?thesis
    by (simp add: w)
qed

theorem munmap_write_all_dirty_mmap_pages_witness:
  "find_mapping_id (mmap_table ex_two_mappings) 1 = Some (ex_mapping 1 0x10000000 11 2) \<and>
   m_pages (ex_mapping 1 0x10000000 11 2) = [0x10000000] \<and>
   fst (munmap_write ex_two_mappings 1) = Inr () \<and>
   trace (snd (munmap_write ex_two_mappings 1)) =
     [Lock_acquire, File_write_at (Some 12) 0x10001000 4096 0, Lock_release]"
  using munmap_write_all_dirty_mmap_pages [OF ex_two_mappings_found] ex_two_mappings_found
  by (simp add: ex_two_mappings_write_back ex_two_mappings_trace ex_mapping_def)

text \<open>
  C5: \<^verbatim>\<open>munmap\<close> of an existing mapping should, after write-back and teardown,
  close the re-opened file of the mapping and remove the mapping from the table. It
  removes the mapping, but its calls are the write-back under the lock and one
  \<^verbatim>\<open>frame_free\<close> per page: the file of the mapping is never closed (the call
  \<^verbatim>\<open>file_close (m->file)\<close> of \<^verbatim>\<open>munmap_free\<close> is commented out).
\<close>

theorem munmap_keeps_file_open:
  assumes "find_mapping_id (mmap_table s) mapping = Some m"
  shows "fst (munmap s mapping) = Inr () \<and>
     mmap_table (snd (munmap s mapping)) = remove_mapping mapping (mmap_table s) \<and>
     trace (snd (munmap s mapping)) =
       trace s @ Lock_acquire # map write_back_event (filter (needs_write_back s) (SPT s)) @
         Lock_release # map Frame_free (m_pages m) \<and>
     File_close (m_file m) \<notin> set (drop (length (trace s)) (trace (snd (munmap s mapping))))"
  using munmap_result [OF assms]
  by (auto simp: write_back_event_def)

lemma remove_ex: "remove_mapping 1 (mmap_table ex_two_mappings) = [ex_mapping 2 0x10001000 12 3]"
  by (simp add: ex_two_mappings_def ex_mapping_def)

theorem munmap_keeps_file_open_witness:
  "fst (munmap ex_two_mappings 1) = Inr () \<and>
   mmap_table (snd (munmap ex_two_mappings 1)) = [ex_mapping 2 0x10001000 12 3] \<and>
   trace (snd (munmap ex_two_mappings 1)) =
     [Lock_acquire, File_write_at (Some 12) 0x10001000 4096 0, Lock_release,
      Frame_free 0x10000000] \<and>
   File_close (Some 11) \<notin> set (trace (snd (munmap ex_two_mappings 1)))"
proof -
  have pg: "m_pages (ex_mapping 1 0x10000000 11 2) = [0x10000000]"
    and fl: "m_file (ex_mapping 1 0x10000000 11 2) = Some 11"
    by (simp_all add: ex_mapping_def)
  from munmap_keeps_file_open [OF ex_two_mappings_found] show ?thesis
    by (simp add: ex_two_mappings_trace ex_two_mappings_write_back pg fl remove_ex)
qed

end
